theory Spec2Isabelle
  imports Main
begin

section \<open>JavaScript values, strings and exceptions\<close>

text \<open>
  The client module \<^verbatim>\<open>api.js\<close> is embedded function by function. Text is a list of
  characters (code units in the range U+0000 to U+00FF); the bytes of a network chunk
  are a list of characters as well.
\<close>

type_synonym bytes = "char list"

text \<open>
  The values \<^verbatim>\<open>JSON.parse\<close> and \<^verbatim>\<open>response.json()\<close> produce, plus \<^verbatim>\<open>undefined\<close> (the
  result of reading a missing property). A number is held by its canonical decimal
  text, the result of \<^verbatim>\<open>Number.prototype.toString\<close>: \<^verbatim>\<open>0\<close> and \<^verbatim>\<open>-0\<close> both read
  \<^verbatim>\<open>"0"\<close>. An object is the list of its own properties in insertion order.
\<close>

datatype jsval =
    Undefined
  | Null
  | Bool bool
  | Num string
  | Str string
  | Arr "jsval list"
  | Obj "(string \<times> jsval) list"

text \<open>A thrown exception: its \<^verbatim>\<open>name\<close> and its \<^verbatim>\<open>message\<close>.\<close>

datatype js_error = JsError (err_name: string) (message: string)

abbreviation Error :: "string \<Rightarrow> js_error" where
  "Error m \<equiv> JsError ''Error'' m"

text \<open>\<^verbatim>\<open>if (v)\<close>, \<^verbatim>\<open>!v\<close>, \<^verbatim>\<open>v || w\<close>: the truthiness of a value.\<close>

fun truthy :: "jsval \<Rightarrow> bool" where
  "truthy Undefined = False"
| "truthy Null = False"
| "truthy (Bool b) = b"
| "truthy (Num s) = (s \<noteq> ''0'' \<and> s \<noteq> ''NaN'')"
| "truthy (Str s) = (s \<noteq> [])"
| "truthy (Arr xs) = True"
| "truthy (Obj kvs) = True"

definition nullish :: "jsval \<Rightarrow> bool" where
  "nullish v = (v = Undefined \<or> v = Null)"

text \<open>
  Reading an own property of an object: \<^verbatim>\<open>JSON.parse\<close> keeps the last of several
  equal keys.
\<close>

definition own_property :: "(string \<times> jsval) list \<Rightarrow> string \<Rightarrow> jsval" where
  "own_property kvs k = (case map_of (rev kvs) k of None \<Rightarrow> Undefined | Some v \<Rightarrow> v)"

text \<open>
  \<^verbatim>\<open>v.p\<close> for the property names the stream reader uses (\<^verbatim>\<open>error\<close>, \<^verbatim>\<open>message\<close>,
  \<^verbatim>\<open>choices\<close>, \<^verbatim>\<open>delta\<close>, \<^verbatim>\<open>content\<close>), none of which a built-in prototype
  defines: only an object can hold them. The caller has excluded \<^verbatim>\<open>null\<close> and
  \<^verbatim>\<open>undefined\<close>, on which the read throws.
\<close>

fun field :: "jsval \<Rightarrow> string \<Rightarrow> jsval" where
  "field (Obj kvs) p = own_property kvs p"
| "field v p = Undefined"

text \<open>\<^verbatim>\<open>v?.p\<close>\<close>

definition opt_field :: "jsval \<Rightarrow> string \<Rightarrow> jsval" where
  "opt_field v p = (if nullish v then Undefined else field v p)"

text \<open>\<^verbatim>\<open>v?.[0]\<close>: the first element of an array, the first code unit of a string, the
  property \<^verbatim>\<open>"0"\<close> of an object.\<close>

fun opt_index0 :: "jsval \<Rightarrow> jsval" where
  "opt_index0 (Arr []) = Undefined"
| "opt_index0 (Arr (x # xs)) = x"
| "opt_index0 (Str []) = Undefined"
| "opt_index0 (Str (c # cs)) = Str [c]"
| "opt_index0 (Obj kvs) = own_property kvs ''0''"
| "opt_index0 v = Undefined"

text \<open>\<^verbatim>\<open>Array.prototype.join\<close> with the default separator.\<close>

fun join_comma :: "string list \<Rightarrow> string" where
  "join_comma [] = []"
| "join_comma [x] = x"
| "join_comma (x # y # ys) = x @ '','' @ join_comma (y # ys)"

text \<open>
  The conversion to a string that \<^verbatim>\<open>fullContent += content\<close> and \<^verbatim>\<open>new Error(msg)\<close>
  apply to a value that is not a string already. \<^verbatim>\<open>None\<close> is the TypeError of an
  object whose own \<^verbatim>\<open>toString\<close> property (never callable in parsed JSON) hides
  \<^verbatim>\<open>Object.prototype.toString\<close>. An array joins its elements, \<^verbatim>\<open>null\<close> and
  \<^verbatim>\<open>undefined\<close> elements reading as the empty string.
\<close>

fun ToString :: "jsval \<Rightarrow> string option"
  and ToString_elements :: "jsval list \<Rightarrow> string list option" where
  "ToString Undefined = Some ''undefined''"
| "ToString Null = Some ''null''"
| "ToString (Bool b) = Some (if b then ''true'' else ''false'')"
| "ToString (Num s) = Some s"
| "ToString (Str s) = Some s"
| "ToString (Arr xs) = map_option join_comma (ToString_elements xs)"
| "ToString (Obj kvs) =
     (if ''toString'' \<in> set (map fst kvs) then None else Some ''[object Object]'')"
| "ToString_elements [] = Some []"
| "ToString_elements (x # xs) =
     (case (if nullish x then Some [] else ToString x) of
        None \<Rightarrow> None
      | Some s \<Rightarrow> map_option ((#) s) (ToString_elements xs))"

subsection \<open>String operations\<close>

definition LF :: char where
  "LF = CHR 0x0A"

text \<open>The white space \<^verbatim>\<open>String.prototype.trim\<close> strips, among the code units below
  U+0100: tab, line feed, vertical tab, form feed, carriage return, space, no-break
  space.\<close>

definition is_white_space :: "char \<Rightarrow> bool" where
  "is_white_space c =
     (c = CHR 0x09 \<or> c = CHR 0x0A \<or> c = CHR 0x0B \<or> c = CHR 0x0C \<or> c = CHR 0x0D
      \<or> c = CHR 0x20 \<or> c = CHR 0xA0)"

definition trim :: "string \<Rightarrow> string" where
  "trim s = rev (dropWhile is_white_space (rev (dropWhile is_white_space s)))"

definition startsWith :: "string \<Rightarrow> string \<Rightarrow> bool" where
  "startsWith s p = (take (length p) s = p)"

text \<open>\<^verbatim>\<open>buffer.indexOf('\n')\<close>; \<^verbatim>\<open>None\<close> is the result \<^verbatim>\<open>-1\<close>.\<close>

fun indexOf_LF :: "string \<Rightarrow> nat option" where
  "indexOf_LF [] = None"
| "indexOf_LF (c # cs) =
     (if c = LF then Some 0 else map_option Suc (indexOf_LF cs))"

text \<open>\<^verbatim>\<open>String.prototype.toLowerCase\<close> on code units below U+0100.\<close>

definition lower_char :: "char \<Rightarrow> char" where
  "lower_char c =
     (let n = (of_char c :: nat)
      in if (65 \<le> n \<and> n \<le> 90) \<or> (192 \<le> n \<and> n \<le> 222 \<and> n \<noteq> 215)
         then char_of (n + 32) else c)"

definition toLowerCase :: "string \<Rightarrow> string" where
  "toLowerCase s = map lower_char s"

text \<open>\<^verbatim>\<open>s.includes(p)\<close>\<close>

fun includes_str :: "string \<Rightarrow> string \<Rightarrow> bool" where
  "includes_str [] p = (p = [])"
| "includes_str (c # cs) p = (startsWith (c # cs) p \<or> includes_str cs p)"

text \<open>The decimal text of a non-negative integer, as a template literal prints it.\<close>

fun nat_to_string :: "nat \<Rightarrow> string" where
  "nat_to_string n =
     (if n < 10 then [''0123456789'' ! n]
      else nat_to_string (n div 10) @ [''0123456789'' ! (n mod 10)])"

section \<open>The environment of the module\<close>

text \<open>A turn of the chat history.\<close>

datatype role = user | assistant

record turn =
  role :: role
  content :: string

text \<open>The JSON body of a request to the proxy, one shape per endpoint.\<close>

datatype request_body =
    AnalyzeBody string string
  | EditBody string string string
  | EnhanceBody string "string option"
  | GenerateBody string string
  | ChatBody "turn list" string bool bool

record request =
  url :: string
  body :: request_body

text \<open>
  What a \<^verbatim>\<open>fetch\<close> gives back: a rejection, or a response with its \<^verbatim>\<open>ok\<close> flag, its
  status, the result of \<^verbatim>\<open>response.json()\<close> (\<^verbatim>\<open>Inl\<close> when that rejects) and its body.
  The body is the finite sequence of chunks its reader yields, closed by \<^verbatim>\<open>done\<close> or
  by a rejected read; a connection that never closes is not modelled.
\<close>

datatype read_end = Done | ReadFailed js_error

record response =
  ok :: bool
  status :: nat
  json :: "js_error + jsval"
  body_chunks :: "bytes list"
  body_end :: read_end

datatype fetch_result = Rejected js_error | Resolved response

text \<open>
  The functions \<^verbatim>\<open>api.js\<close> calls and does not define. The first group is the
  repository's own \<^verbatim>\<open>utils.js\<close> (the class \<^verbatim>\<open>RateLimiter\<close> with its state \<open>'r\<close>, which
  holds the clock, and three helpers); the second is the platform: \<^verbatim>\<open>JSON.parse\<close>
  (\<^verbatim>\<open>Inl\<close> is the SyntaxError it throws), the TypeErrors the engine raises, the
  \<^verbatim>\<open>TextDecoder\<close> (a state machine with state \<open>'d\<close> that consumes one byte at a time
  and emits the code units completed by it).
\<close>

record ('r, 'd) env =
  canMakeRequest :: "'r \<Rightarrow> bool \<times> 'r"
  getTimeUntilNextRequest :: "'r \<Rightarrow> nat \<times> 'r"
  getRemainingRequests :: "'r \<Rightarrow> nat \<times> 'r"
  sanitizePrompt :: "string \<Rightarrow> string"
  getUserFriendlyError :: "js_error \<Rightarrow> string"
  prepareImageForUpload :: "string \<Rightarrow> js_error + string"
  JSON_parse :: "string \<Rightarrow> js_error + jsval"
  TypeError_property :: js_error
  TypeError_convert :: js_error
  decoder_start :: 'd
  decoder_byte :: "'d \<Rightarrow> char \<Rightarrow> string \<times> 'd"

text \<open>The network: what \<^verbatim>\<open>fetch\<close> answers to a request.\<close>

type_synonym network = "request \<Rightarrow> fetch_result"

text \<open>\<^verbatim>\<open>decoder.decode(value, { stream: true })\<close>\<close>

fun decode :: "('r, 'd) env \<Rightarrow> 'd \<Rightarrow> bytes \<Rightarrow> string \<times> 'd" where
  "decode E d [] = ([], d)"
| "decode E d (b # bs) =
     (case decoder_byte E d b of
        (s, d') \<Rightarrow> (case decode E d' bs of (t, d'') \<Rightarrow> (s @ t, d'')))"

section \<open>The stream reader of sendChatMessage\<close>

text \<open>
  The outcome of one pass of the inner loop body: the loop goes on with a new
  \<^verbatim>\<open>fullContent\<close> and the calls of \<^verbatim>\<open>onChunk\<close> made (each with its two arguments),
  or an exception leaves the loop.
\<close>

datatype line_result =
    Continue string "(jsval \<times> string) list"
  | Throw js_error

text \<open>The body of the \<^verbatim>\<open>try\<close> block around \<^verbatim>\<open>JSON.parse\<close>. The flag \<open>sink\<close> says
  whether the caller gave an \<^verbatim>\<open>onChunk\<close>; the callback is taken to return normally, and
  its calls are listed in order.\<close>

definition try_payload ::
  "('r, 'd) env \<Rightarrow> bool \<Rightarrow> string \<Rightarrow> string \<Rightarrow> line_result" where
  "try_payload E sink fullContent data =
     (case JSON_parse E data of
        Inl e \<Rightarrow> Throw e
      | Inr parsed \<Rightarrow>
          if nullish parsed then Throw (TypeError_property E)
          else if truthy (field parsed ''error'') then
            (let m = field (field parsed ''error'') ''message''
             in if truthy m then
                  (case ToString m of
                     None \<Rightarrow> Throw (TypeError_convert E)
                   | Some s \<Rightarrow> Throw (Error s))
                else Throw (Error ''Stream error''))
          else
            (let content =
                   opt_field (opt_field (opt_index0 (field parsed ''choices'')) ''delta'')
                     ''content''
             in if truthy content then
                  (case ToString content of
                     None \<Rightarrow> Throw (TypeError_convert E)
                   | Some s \<Rightarrow>
                       Continue (fullContent @ s)
                         (if sink then [(content, fullContent @ s)] else []))
                else Continue fullContent []))"

text \<open>The \<^verbatim>\<open>catch (parseError)\<close> block: everything but an exception whose message is
  \<^verbatim>\<open>Stream error\<close> is logged and dropped.\<close>

definition process_payload ::
  "('r, 'd) env \<Rightarrow> bool \<Rightarrow> string \<Rightarrow> string \<Rightarrow> line_result" where
  "process_payload E sink fullContent data =
     (case try_payload E sink fullContent data of
        Throw parseError \<Rightarrow>
          if message parseError \<noteq> ''Stream error'' then Continue fullContent []
          else Throw parseError
      | Continue f calls \<Rightarrow> Continue f calls)"

text \<open>One trimmed line of the buffer.\<close>

definition process_line ::
  "('r, 'd) env \<Rightarrow> bool \<Rightarrow> string \<Rightarrow> string \<Rightarrow> line_result" where
  "process_line E sink fullContent line =
     (if line = [] \<or> startsWith line '':'' then Continue fullContent []
      else if startsWith line ''data: '' then
        (let data = drop 6 line
         in if data = ''[DONE]'' then Continue fullContent []
            else process_payload E sink fullContent data)
      else Continue fullContent [])"

text \<open>
  The inner \<^verbatim>\<open>while (true)\<close>: complete lines are taken off the front of the buffer
  until it holds no line feed. The result is the list of \<^verbatim>\<open>onChunk\<close> calls made and
  either the exception thrown or the remaining buffer with the new \<^verbatim>\<open>fullContent\<close>.
\<close>

function process_buffer ::
  "('r, 'd) env \<Rightarrow> bool \<Rightarrow> string \<Rightarrow> string
     \<Rightarrow> (jsval \<times> string) list \<times> (js_error + string \<times> string)" where
  "process_buffer E sink buffer fullContent =
     (case indexOf_LF buffer of
        None \<Rightarrow> ([], Inr (buffer, fullContent))
      | Some lineEnd \<Rightarrow>
          (case process_line E sink fullContent (trim (take lineEnd buffer)) of
             Throw e \<Rightarrow> ([], Inl e)
           | Continue f calls \<Rightarrow>
               (case process_buffer E sink (drop (lineEnd + 1) buffer) f of
                  (calls', r) \<Rightarrow> (calls @ calls', r))))"
  by pat_completeness auto
termination
proof (relation "measure (\<lambda>(E, sink, buffer, fullContent). length buffer)")
  have less: "i < length b" if "indexOf_LF b = Some i" for b i
    using that by (induction b arbitrary: i) (auto split: if_splits)
  fix E :: "('r, 'd) env" and sink :: bool and buffer fullContent :: string
    and lineEnd :: nat and f :: string and calls :: "(jsval \<times> string) list"
  assume "indexOf_LF buffer = Some lineEnd"
  then have "lineEnd < length buffer" by (rule less)
  then show "((E, sink, drop (lineEnd + 1) buffer, f), (E, sink, buffer, fullContent))
      \<in> measure (\<lambda>(E, sink, buffer, fullContent). length buffer)"
    by simp
qed simp

text \<open>
  The outer \<^verbatim>\<open>while (true)\<close> over \<^verbatim>\<open>reader.read()\<close>: each chunk is decoded, appended
  to the buffer, and the buffer is processed. At \<^verbatim>\<open>done\<close> the loop ends with
  \<^verbatim>\<open>fullContent\<close>; what is left in the buffer is dropped.
\<close>

fun read_loop ::
  "('r, 'd) env \<Rightarrow> bool \<Rightarrow> 'd \<Rightarrow> string \<Rightarrow> string \<Rightarrow> bytes list \<Rightarrow> read_end
     \<Rightarrow> (jsval \<times> string) list \<times> (js_error + string)" where
  "read_loop E sink d buffer fullContent [] Done = ([], Inr fullContent)"
| "read_loop E sink d buffer fullContent [] (ReadFailed e) = ([], Inl e)"
| "read_loop E sink d buffer fullContent (v # rest) fin =
     (case decode E d v of
        (text, d') \<Rightarrow>
          (case process_buffer E sink (buffer @ text) fullContent of
             (calls, Inl e) \<Rightarrow> (calls, Inl e)
           | (calls, Inr (buffer', f)) \<Rightarrow>
               (case read_loop E sink d' buffer' f rest fin of
                  (calls', r) \<Rightarrow> (calls @ calls', r))))"

text \<open>The reader from its initial state: a fresh decoder, an empty buffer, an empty
  \<^verbatim>\<open>fullContent\<close>.\<close>

definition read_stream ::
  "('r, 'd) env \<Rightarrow> bool \<Rightarrow> bytes list \<Rightarrow> read_end
     \<Rightarrow> (jsval \<times> string) list \<times> (js_error + string)" where
  "read_stream E sink chunks fin = read_loop E sink (decoder_start E) [] [] chunks fin"

section \<open>Module state and model registries\<close>

record model_info =
  name :: string
  description :: string

text \<open>The two registries, keys in source order.\<close>

definition IMAGE_GENERATION_MODELS :: "(string \<times> model_info) list" where
  "IMAGE_GENERATION_MODELS =
   [(''black-forest-labs/flux.2-pro'',
       \<lparr>name = ''FLUX.2 Pro'',
        description = ''A high-end image generation and editing model focused on frontier-level visual quality and reliability. Strong prompt adherence, stable lighting, sharp textures.''\<rparr>),
    (''black-forest-labs/flux.2-flex'',
       \<lparr>name = ''FLUX.2 Flex'',
        description = ''Excels at rendering complex text, typography, and fine details. Supports multi-reference editing in the same unified architecture.''\<rparr>),
    (''google/gemini-3-pro-image-preview'',
       \<lparr>name = ''Gemini 3 Pro Image'',
        description = ''Google'' @ [CHR 0x27] @ ''s latest multimodal model with advanced image generation capabilities and excellent prompt understanding.''\<rparr>),
    (''openai/gpt-5-image-mini'',
       \<lparr>name = ''GPT-5 Image Mini'',
        description = ''OpenAI'' @ [CHR 0x27] @ ''s compact image generation model. Fast and efficient with great quality for most use cases.''\<rparr>),
    (''openai/gpt-5-image'',
       \<lparr>name = ''GPT-5 Image'',
        description = ''OpenAI'' @ [CHR 0x27] @ ''s flagship image generation model. Best-in-class quality and creativity.''\<rparr>),
    (''google/gemini-2.5-flash-image'',
       \<lparr>name = ''Gemini 2.5 Flash Image'',
        description = ''Google'' @ [CHR 0x27] @ ''s fast image generation model. Optimized for speed while maintaining good quality.''\<rparr>)]"

definition CHAT_MODELS :: "(string \<times> model_info) list" where
  "CHAT_MODELS =
   [(''anthropic/claude-sonnet-4.5'',
       \<lparr>name = ''Claude Sonnet 4.5'',
        description = ''Anthropic'' @ [CHR 0x27] @ ''s balanced model. Excellent reasoning with fast response times.''\<rparr>),
    (''anthropic/claude-opus-4.5'',
       \<lparr>name = ''Claude Opus 4.5'',
        description = ''Anthropic'' @ [CHR 0x27] @ ''s most capable model. Best for complex analysis and nuanced tasks.''\<rparr>),
    (''anthropic/claude-haiku-4.5'',
       \<lparr>name = ''Claude Haiku 4.5'',
        description = ''Anthropic'' @ [CHR 0x27] @ ''s fastest model. Lightning quick responses for simple tasks.''\<rparr>),
    (''openai/gpt-5.1'',
       \<lparr>name = ''GPT-5.1'',
        description = ''OpenAI'' @ [CHR 0x27] @ ''s flagship model. State-of-the-art reasoning and knowledge.''\<rparr>),
    (''openai/gpt-5.1-chat'',
       \<lparr>name = ''GPT-5.1 Chat'',
        description = ''OpenAI'' @ [CHR 0x27] @ ''s conversational model. Optimized for natural dialogue.''\<rparr>),
    (''openai/gpt-5-image-mini'',
       \<lparr>name = ''GPT-5 Image Mini'',
        description = ''OpenAI'' @ [CHR 0x27] @ ''s multimodal model. Can understand and discuss images.''\<rparr>),
    (''openai/gpt-4.1'',
       \<lparr>name = ''GPT-4.1'',
        description = ''OpenAI'' @ [CHR 0x27] @ ''s reliable workhorse. Great balance of speed and capability.''\<rparr>),
    (''x-ai/grok-4.1-fast'',
       \<lparr>name = ''Grok 4.1 Fast'',
        description = ''xAI'' @ [CHR 0x27] @ ''s fast model. Quick responses with real-time knowledge.''\<rparr>),
    (''google/gemini-3-pro-preview'',
       \<lparr>name = ''Gemini 3 Pro'',
        description = ''Google'' @ [CHR 0x27] @ ''s advanced model. Excellent multimodal understanding.''\<rparr>),
    (''google/gemini-2.5-pro'',
       \<lparr>name = ''Gemini 2.5 Pro'',
        description = ''Google'' @ [CHR 0x27] @ ''s professional model. Great for detailed analysis.''\<rparr>),
    (''google/gemini-2.5-flash'',
       \<lparr>name = ''Gemini 2.5 Flash'',
        description = ''Google'' @ [CHR 0x27] @ ''s fast model. Quick responses with good quality.''\<rparr>),
    (''google/gemini-2.5-flash-lite-preview-09-2025'',
       \<lparr>name = ''Gemini 2.5 Flash Lite'',
        description = ''Google'' @ [CHR 0x27] @ ''s lightweight model. Fastest responses for simple queries.''\<rparr>)]"

text \<open>The keys of a registry (\<^verbatim>\<open>Object.keys\<close>).\<close>

definition registry_keys :: "(string \<times> model_info) list \<Rightarrow> string list" where
  "registry_keys reg = map fst reg"

text \<open>
  The properties every object literal inherits from \<^verbatim>\<open>Object.prototype\<close>; each is a
  function, or for \<^verbatim>\<open>__proto__\<close> the prototype object itself, hence truthy.
\<close>

definition Object_prototype_properties :: "string list" where
  "Object_prototype_properties =
   [''constructor'', ''__defineGetter__'', ''__defineSetter__'', ''hasOwnProperty'',
    ''__lookupGetter__'', ''__lookupSetter__'', ''isPrototypeOf'', ''propertyIsEnumerable'',
    ''toString'', ''valueOf'', ''__proto__'', ''toLocaleString'']"

text \<open>
  The test \<^verbatim>\<open>if (REGISTRY[modelId])\<close>: the property read finds an own entry (an
  object, truthy) or else looks the name up along the prototype chain.
\<close>

definition registry_lookup_truthy :: "(string \<times> model_info) list \<Rightarrow> string \<Rightarrow> bool" where
  "registry_lookup_truthy reg modelId =
     (case map_of reg modelId of
        Some info \<Rightarrow> True
      | None \<Rightarrow> modelId \<in> set Object_prototype_properties)"

text \<open>The module-level variables of \<^verbatim>\<open>api.js\<close>.\<close>

record 'r module_state =
  currentGenerationModel :: string
  currentEditModel :: string
  currentChatModel :: string
  chatHistory :: "turn list"
  webSearchEnabled :: bool
  apiRateLimiter :: 'r

definition initial_state :: "'r \<Rightarrow> 'r module_state" where
  "initial_state rl =
     \<lparr>currentGenerationModel = ''black-forest-labs/flux.2-pro'',
      currentEditModel = ''openai/gpt-5-image-mini'',
      currentChatModel = ''anthropic/claude-sonnet-4.5'',
      chatHistory = [],
      webSearchEnabled = False,
      apiRateLimiter = rl\<rparr>"

definition setGenerationModel :: "string \<Rightarrow> 'r module_state \<Rightarrow> 'r module_state" where
  "setGenerationModel modelId st =
     (if registry_lookup_truthy IMAGE_GENERATION_MODELS modelId
      then st\<lparr>currentGenerationModel := modelId\<rparr> else st)"

definition setEditModel :: "string \<Rightarrow> 'r module_state \<Rightarrow> 'r module_state" where
  "setEditModel modelId st =
     (if registry_lookup_truthy IMAGE_GENERATION_MODELS modelId
      then st\<lparr>currentEditModel := modelId\<rparr> else st)"

definition setChatModel :: "string \<Rightarrow> 'r module_state \<Rightarrow> 'r module_state" where
  "setChatModel modelId st =
     (if registry_lookup_truthy CHAT_MODELS modelId
      then st\<lparr>currentChatModel := modelId\<rparr> else st)"

definition clearChatHistory :: "'r module_state \<Rightarrow> 'r module_state" where
  "clearChatHistory st = st\<lparr>chatHistory := []\<rparr>"

text \<open>The selected models are keys of their registries.\<close>

definition selected_models_registered :: "'r module_state \<Rightarrow> bool" where
  "selected_models_registered st =
     (currentGenerationModel st \<in> set (registry_keys IMAGE_GENERATION_MODELS)
      \<and> currentEditModel st \<in> set (registry_keys IMAGE_GENERATION_MODELS)
      \<and> currentChatModel st \<in> set (registry_keys CHAT_MODELS))"

section \<open>Rate limit check and status\<close>

text \<open>\<^verbatim>\<open>Math.ceil(ms / 1000)\<close> on a non-negative integer.\<close>

definition ceil_seconds :: "nat \<Rightarrow> nat" where
  "ceil_seconds ms = (ms + 999) div 1000"

text \<open>\<^verbatim>\<open>checkRateLimit\<close>: returns normally or throws; the limiter is left as its two
  methods leave it.\<close>

definition checkRateLimit :: "('r, 'd) env \<Rightarrow> 'r \<Rightarrow> (js_error + unit) \<times> 'r" where
  "checkRateLimit E rl =
     (case canMakeRequest E rl of
        (admitted, rl1) \<Rightarrow>
          if \<not> admitted then
            (case getTimeUntilNextRequest E rl1 of
               (ms, rl2) \<Rightarrow>
                 (Inl (Error (''Rate limit exceeded. Please wait ''
                         @ nat_to_string (ceil_seconds ms)
                         @ '' seconds before making another request.'')), rl2))
          else (Inr (), rl1))"



section \<open>The API operations\<close>

text \<open>\<^verbatim>\<open>model || current\<close>, the parameter defaulting to \<^verbatim>\<open>null\<close>.\<close>

definition or_current :: "string option \<Rightarrow> string \<Rightarrow> string" where
  "or_current model current =
     (case model of None \<Rightarrow> current | Some m \<Rightarrow> if m \<noteq> [] then m else current)"

text \<open>The tail of every outer \<^verbatim>\<open>catch\<close> block: a rate-limit error is thrown again as it
  is, any other one is replaced.\<close>

definition rethrow_friendly :: "('r, 'd) env \<Rightarrow> js_error \<Rightarrow> js_error" where
  "rethrow_friendly E error =
     (if includes_str (toLowerCase (message error)) ''rate limit'' then error
      else Error (getUserFriendlyError E error))"

text \<open>
  \<^verbatim>\<open>analyzeImage\<close>, \<^verbatim>\<open>editImage\<close>, \<^verbatim>\<open>enhancePromptWithAI\<close> and \<^verbatim>\<open>generateImage\<close>
  from their entry to their \<^verbatim>\<open>fetch\<close> call: the exception thrown before any
  request, or the request sent. (What they extract from the response is not
  modelled.) An optional parameter left out is \<^verbatim>\<open>None\<close>.
\<close>

definition analyzeImage_request ::
  "('r, 'd) env \<Rightarrow> string \<Rightarrow> string option \<Rightarrow> 'r module_state
     \<Rightarrow> (js_error + request) \<times> 'r module_state" where
  "analyzeImage_request E base64Image prompt st =
     (case checkRateLimit E (apiRateLimiter st) of
        (Inl e, rl) \<Rightarrow> (Inl e, st\<lparr>apiRateLimiter := rl\<rparr>)
      | (Inr u, rl) \<Rightarrow>
          (let st0 = st\<lparr>apiRateLimiter := rl\<rparr>;
               sanitizedPrompt =
                 sanitizePrompt E
                   (case prompt of
                      None \<Rightarrow> ''Analyze this image and describe its content and quality''
                    | Some p \<Rightarrow> p)
           in if sanitizedPrompt = [] then (Inl (Error ''Invalid prompt provided''), st0)
              else
                (case prepareImageForUpload E base64Image of
                   Inl error \<Rightarrow> (Inl (rethrow_friendly E error), st0)
                 | Inr preparedImage \<Rightarrow>
                     (Inr \<lparr>url = ''/api/analyze'',
                           body = AnalyzeBody sanitizedPrompt preparedImage\<rparr>, st0))))"

definition enhancePromptWithAI_request ::
  "('r, 'd) env \<Rightarrow> string \<Rightarrow> string option \<Rightarrow> 'r module_state
     \<Rightarrow> (js_error + request) \<times> 'r module_state" where
  "enhancePromptWithAI_request E userPrompt base64Image st =
     (case checkRateLimit E (apiRateLimiter st) of
        (Inl e, rl) \<Rightarrow> (Inl e, st\<lparr>apiRateLimiter := rl\<rparr>)
      | (Inr u, rl) \<Rightarrow>
          (let st0 = st\<lparr>apiRateLimiter := rl\<rparr>;
               sanitizedPrompt = sanitizePrompt E userPrompt
           in if sanitizedPrompt = [] then (Inl (Error ''Invalid prompt provided''), st0)
              else
                (case base64Image of
                   None \<Rightarrow>
                     (Inr \<lparr>url = ''/api/enhance'', body = EnhanceBody sanitizedPrompt None\<rparr>,
                      st0)
                 | Some img \<Rightarrow>
                     if img = [] then
                       (Inr \<lparr>url = ''/api/enhance'',
                             body = EnhanceBody sanitizedPrompt None\<rparr>, st0)
                     else
                       (case prepareImageForUpload E img of
                          Inl error \<Rightarrow> (Inl (rethrow_friendly E error), st0)
                        | Inr preparedImage \<Rightarrow>
                            (Inr \<lparr>url = ''/api/enhance'',
                                  body = EnhanceBody sanitizedPrompt (Some preparedImage)\<rparr>,
                             st0)))))"

definition generateImage_request ::
  "('r, 'd) env \<Rightarrow> string \<Rightarrow> string option \<Rightarrow> 'r module_state
     \<Rightarrow> (js_error + request) \<times> 'r module_state" where
  "generateImage_request E prompt model st =
     (case checkRateLimit E (apiRateLimiter st) of
        (Inl e, rl) \<Rightarrow> (Inl e, st\<lparr>apiRateLimiter := rl\<rparr>)
      | (Inr u, rl) \<Rightarrow>
          (let st0 = st\<lparr>apiRateLimiter := rl\<rparr>;
               sanitizedPrompt = sanitizePrompt E prompt
           in if sanitizedPrompt = [] then (Inl (Error ''Invalid prompt provided''), st0)
              else
                (let selectedModel = or_current model (currentGenerationModel st0)
                 in (Inr \<lparr>url = ''/api/generate'',
                          body = GenerateBody sanitizedPrompt selectedModel\<rparr>, st0))))"

definition editImage_request ::
  "('r, 'd) env \<Rightarrow> string \<Rightarrow> string \<Rightarrow> string option \<Rightarrow> 'r module_state
     \<Rightarrow> (js_error + request) \<times> 'r module_state" where
  "editImage_request E base64Image prompt model st =
     (case checkRateLimit E (apiRateLimiter st) of
        (Inl e, rl) \<Rightarrow> (Inl e, st\<lparr>apiRateLimiter := rl\<rparr>)
      | (Inr u, rl) \<Rightarrow>
          (let st0 = st\<lparr>apiRateLimiter := rl\<rparr>;
               sanitizedPrompt = sanitizePrompt E prompt
           in if sanitizedPrompt = [] then (Inl (Error ''Invalid prompt provided''), st0)
              else
                (let selectedModel = or_current model (currentEditModel st0)
                 in case prepareImageForUpload E base64Image of
                      Inl error \<Rightarrow> (Inl (rethrow_friendly E error), st0)
                    | Inr preparedImage \<Rightarrow>
                        (Inr \<lparr>url = ''/api/edit'',
                              body = EditBody sanitizedPrompt preparedImage selectedModel\<rparr>,
                         st0))))"

text \<open>What a call of \<^verbatim>\<open>sendChatMessage\<close> does besides changing the module state: it
  resolves or rejects, calls \<^verbatim>\<open>onChunk\<close>, and sends requests.\<close>

record call_result =
  outcome :: "js_error + string"
  onChunk_calls :: "(jsval \<times> string) list"
  fetched :: "request list"

text \<open>\<^verbatim>\<open>chatHistory.pop()\<close>\<close>

definition pop_history :: "'r module_state \<Rightarrow> 'r module_state" where
  "pop_history st = st\<lparr>chatHistory := butlast (chatHistory st)\<rparr>"

text \<open>The \<^verbatim>\<open>try\<close> block of \<^verbatim>\<open>sendChatMessage\<close>, entered with the user turn pushed: the
  \<^verbatim>\<open>onChunk\<close> calls, the value returned or the exception thrown, and the state.\<close>

definition chat_exchange ::
  "('r, 'd) env \<Rightarrow> network \<Rightarrow> bool \<Rightarrow> request \<Rightarrow> 'r module_state
     \<Rightarrow> (jsval \<times> string) list \<times> (js_error + string) \<times> 'r module_state" where
  "chat_exchange E fetch sink req st =
     (case fetch req of
        Rejected e \<Rightarrow> ([], Inl e, st)
      | Resolved resp \<Rightarrow>
          if \<not> ok resp then
            (case json resp of
               Inl e \<Rightarrow> ([], Inl e, st)
             | Inr errorData \<Rightarrow>
                 (let st' = pop_history st
                  in if nullish errorData then ([], Inl (TypeError_property E), st')
                     else if truthy (field errorData ''error'') then
                       (case ToString (field errorData ''error'') of
                          None \<Rightarrow> ([], Inl (TypeError_convert E), st')
                        | Some m \<Rightarrow> ([], Inl (Error m), st'))
                     else
                       ([], Inl (Error (''API request failed with status ''
                                  @ nat_to_string (status resp))), st')))
          else
            (case read_stream E sink (body_chunks resp) (body_end resp) of
               (calls, Inl e) \<Rightarrow> (calls, Inl e, st)
             | (calls, Inr fullContent) \<Rightarrow>
                 if fullContent \<noteq> [] then
                   (calls, Inr fullContent,
                    st\<lparr>chatHistory :=
                         chatHistory st @ [\<lparr>role = assistant, content = fullContent\<rparr>]\<rparr>)
                 else (calls, Inr ''No response received'', st)))"

text \<open>The outer \<^verbatim>\<open>catch (error)\<close> block of \<^verbatim>\<open>sendChatMessage\<close>.\<close>

definition chat_catch ::
  "('r, 'd) env \<Rightarrow> js_error \<Rightarrow> 'r module_state \<Rightarrow> js_error \<times> 'r module_state" where
  "chat_catch E error st =
     (let st' = (if chatHistory st \<noteq> [] \<and> role (last (chatHistory st)) = user
                 then pop_history st else st)
      in (rethrow_friendly E error, st'))"

definition sendChatMessage ::
  "('r, 'd) env \<Rightarrow> network \<Rightarrow> string \<Rightarrow> bool \<Rightarrow> string option \<Rightarrow> 'r module_state
     \<Rightarrow> call_result \<times> 'r module_state" where
  "sendChatMessage E fetch msg sink model st =
     (case checkRateLimit E (apiRateLimiter st) of
        (Inl e, rl) \<Rightarrow>
          (\<lparr>outcome = Inl e, onChunk_calls = [], fetched = []\<rparr>, st\<lparr>apiRateLimiter := rl\<rparr>)
      | (Inr u, rl) \<Rightarrow>
          (let st0 = st\<lparr>apiRateLimiter := rl\<rparr>;
               sanitizedMessage = sanitizePrompt E msg
           in if sanitizedMessage = [] then
                (\<lparr>outcome = Inl (Error ''Invalid message provided''),
                  onChunk_calls = [], fetched = []\<rparr>, st0)
              else
                (let selectedModel = or_current model (currentChatModel st0);
                     st1 = st0\<lparr>chatHistory :=
                              chatHistory st0 @ [\<lparr>role = user, content = sanitizedMessage\<rparr>]\<rparr>;
                     req = \<lparr>url = ''/api/chat'',
                            body = ChatBody (chatHistory st1) selectedModel True
                                     (webSearchEnabled st1)\<rparr>
                 in case chat_exchange E fetch sink req st1 of
                      (calls, Inr result, st2) \<Rightarrow>
                        (\<lparr>outcome = Inr result, onChunk_calls = calls, fetched = [req]\<rparr>, st2)
                    | (calls, Inl error, st2) \<Rightarrow>
                        (case chat_catch E error st2 of
                           (thrown, st3) \<Rightarrow>
                             (\<lparr>outcome = Inl thrown, onChunk_calls = calls,
                               fetched = [req]\<rparr>, st3)))))"

section \<open>A concrete environment for evaluating the model\<close>

text \<open>
  A parser for a fragment of JSON, used where the model is run on an explicit stream.
  Wherever it returns a value, that value is the one \<^verbatim>\<open>JSON.parse\<close> returns; it
  rejects every text \<^verbatim>\<open>JSON.parse\<close> rejects, and besides those only texts with a
  number that has a fraction, an exponent or more than fifteen digits, or with a
  \<^verbatim>\<open>\u\<close> escape above U+00FF. The general results below hold for every parser.
\<close>

definition is_json_ws :: "char \<Rightarrow> bool" where
  "is_json_ws c = (c = CHR 0x20 \<or> c = CHR 0x09 \<or> c = CHR 0x0A \<or> c = CHR 0x0D)"

definition skip_ws :: "string \<Rightarrow> string" where
  "skip_ws s = dropWhile is_json_ws s"

definition is_digit :: "char \<Rightarrow> bool" where
  "is_digit c = (48 \<le> (of_char c :: nat) \<and> (of_char c :: nat) \<le> 57)"

definition hex_value :: "char \<Rightarrow> nat option" where
  "hex_value c =
     (let n = (of_char c :: nat)
      in if 48 \<le> n \<and> n \<le> 57 then Some (n - 48)
         else if 97 \<le> n \<and> n \<le> 102 then Some (n - 87)
         else if 65 \<le> n \<and> n \<le> 70 then Some (n - 55)
         else None)"

definition simple_escape :: "char \<Rightarrow> char option" where
  "simple_escape e =
     (if e = CHR 0x22 then Some (CHR 0x22)
      else if e = CHR 0x5C then Some (CHR 0x5C)
      else if e = CHR ''/'' then Some (CHR ''/'')
      else if e = CHR ''b'' then Some (CHR 0x08)
      else if e = CHR ''f'' then Some (CHR 0x0C)
      else if e = CHR ''n'' then Some (CHR 0x0A)
      else if e = CHR ''r'' then Some (CHR 0x0D)
      else if e = CHR ''t'' then Some (CHR 0x09)
      else None)"

text \<open>The characters of a string after its opening quote, and the input after its
  closing quote.\<close>

fun parse_string_chars :: "string \<Rightarrow> (string \<times> string) option"
  and parse_escape :: "string \<Rightarrow> (string \<times> string) option" where
  "parse_string_chars [] = None"
| "parse_string_chars (c # cs) =
     (if c = CHR 0x22 then Some ([], cs)
      else if c = CHR 0x5C then parse_escape cs
      else if (of_char c :: nat) < 32 then None
      else map_option (\<lambda>(s, r). (c # s, r)) (parse_string_chars cs))"
| "parse_escape [] = None"
| "parse_escape (e # cs) =
     (if e = CHR ''u'' then
        (case cs of
           h1 # h2 # h3 # h4 # r \<Rightarrow>
             (case (hex_value h1, hex_value h2, hex_value h3, hex_value h4) of
                (Some a, Some b, Some c, Some d) \<Rightarrow>
                  if a = 0 \<and> b = 0
                  then map_option (\<lambda>(s, r'). (char_of (16 * c + d) # s, r'))
                         (parse_string_chars r)
                  else None
              | _ \<Rightarrow> None)
         | _ \<Rightarrow> None)
      else
        (case simple_escape e of
           None \<Rightarrow> None
         | Some ch \<Rightarrow> map_option (\<lambda>(s, r). (ch # s, r)) (parse_string_chars cs)))"

definition parse_number :: "string \<Rightarrow> (jsval \<times> string) option" where
  "parse_number s =
     (let neg = (s \<noteq> [] \<and> hd s = CHR ''-'');
          s1 = (if neg then tl s else s);
          ds = takeWhile is_digit s1;
          r = dropWhile is_digit s1
      in if ds = [] \<or> (1 < length ds \<and> hd ds = CHR ''0'') \<or> 15 < length ds then None
         else if r \<noteq> [] \<and> (hd r = CHR ''.'' \<or> hd r = CHR ''e'' \<or> hd r = CHR ''E'') then None
         else Some (Num (if ds = ''0'' then ''0'' else (if neg then ''-'' else []) @ ds), r))"

text \<open>The recursive descent, with fuel for the nesting and the sequences.\<close>

fun parse_value :: "nat \<Rightarrow> string \<Rightarrow> (jsval \<times> string) option"
  and parse_elements :: "nat \<Rightarrow> string \<Rightarrow> (jsval list \<times> string) option"
  and parse_members :: "nat \<Rightarrow> string \<Rightarrow> ((string \<times> jsval) list \<times> string) option" where
  "parse_value 0 s = None"
| "parse_value (Suc n) s =
     (case skip_ws s of
        [] \<Rightarrow> None
      | c # cs \<Rightarrow>
          if c = CHR ''{'' then
            (case skip_ws cs of
               [] \<Rightarrow> None
             | c' # r \<Rightarrow>
                 if c' = CHR ''}'' then Some (Obj [], r)
                 else map_option (\<lambda>(kvs, r'). (Obj kvs, r')) (parse_members n cs))
          else if c = CHR ''['' then
            (case skip_ws cs of
               [] \<Rightarrow> None
             | c' # r \<Rightarrow>
                 if c' = CHR '']'' then Some (Arr [], r)
                 else map_option (\<lambda>(xs, r'). (Arr xs, r')) (parse_elements n cs))
          else if c = CHR 0x22 then
            map_option (\<lambda>(str, r). (Str str, r)) (parse_string_chars cs)
          else if startsWith (c # cs) ''true'' then Some (Bool True, drop 4 (c # cs))
          else if startsWith (c # cs) ''false'' then Some (Bool False, drop 5 (c # cs))
          else if startsWith (c # cs) ''null'' then Some (Null, drop 4 (c # cs))
          else parse_number (c # cs))"
| "parse_elements 0 s = None"
| "parse_elements (Suc n) s =
     (case parse_value n s of
        None \<Rightarrow> None
      | Some (v, r) \<Rightarrow>
          (case skip_ws r of
             [] \<Rightarrow> None
           | c # r' \<Rightarrow>
               if c = CHR '','' then
                 map_option (\<lambda>(xs, r''). (v # xs, r'')) (parse_elements n r')
               else if c = CHR '']'' then Some ([v], r')
               else None))"
| "parse_members 0 s = None"
| "parse_members (Suc n) s =
     (case skip_ws s of
        [] \<Rightarrow> None
      | q # cs \<Rightarrow>
          if q \<noteq> CHR 0x22 then None
          else
            (case parse_string_chars cs of
               None \<Rightarrow> None
             | Some (k, r) \<Rightarrow>
                 (case skip_ws r of
                    [] \<Rightarrow> None
                  | c # r' \<Rightarrow>
                      if c \<noteq> CHR '':'' then None
                      else
                        (case parse_value n r' of
                           None \<Rightarrow> None
                         | Some (v, r'') \<Rightarrow>
                             (case skip_ws r'' of
                                [] \<Rightarrow> None
                              | c' # r3 \<Rightarrow>
                                  if c' = CHR '','' then
                                    map_option (\<lambda>(kvs, r4). ((k, v) # kvs, r4))
                                      (parse_members n r3)
                                  else if c' = CHR ''}'' then Some ([(k, v)], r3)
                                  else None)))))"

definition JSON_parse_fragment :: "string \<Rightarrow> js_error + jsval" where
  "JSON_parse_fragment s =
     (case parse_value (2 * length s + 2) s of
        None \<Rightarrow> Inl (JsError ''SyntaxError'' ''Unexpected token in JSON'')
      | Some (v, r) \<Rightarrow>
          if skip_ws r = [] then Inr v
          else Inl (JsError ''SyntaxError'' ''Unexpected token in JSON''))"

section \<open>The rate limiter and the image preparer\<close>

text \<open>
  Modelled from the spec: the class \<^verbatim>\<open>RateLimiter\<close> of \<^verbatim>\<open>utils.js\<close>, which is not
  among the sources. The spec (section 4.1) gives it a configuration \<^verbatim>\<open>maxCalls\<close>,
  \<^verbatim>\<open>windowDurationMs\<close> and a window of recorded timestamps. Every check discards
  from the window the timestamps older than \<^verbatim>\<open>now - windowDurationMs\<close> (section 3:
  the window is purged lazily on each check) and admits iff fewer than \<^verbatim>\<open>maxCalls\<close>
  remain; a check records nothing, \<^verbatim>\<open>recordAdmission\<close> being a separate step;
  \<^verbatim>\<open>timeUntilNextSlot\<close> is the time until the oldest retained timestamp leaves the
  window, zero if a call is admissible. The status (section 6) is derived from
  these without changing the window.
\<close>

record rate_limiter =
  maxCalls :: nat
  windowDurationMs :: nat
  window :: "nat list"

definition retained :: "rate_limiter \<Rightarrow> nat \<Rightarrow> nat list" where
  "retained rl now = filter (\<lambda>t. now \<le> t + windowDurationMs rl) (window rl)"

text \<open>The window after the discarding a check does.\<close>

definition purge :: "rate_limiter \<Rightarrow> nat \<Rightarrow> rate_limiter" where
  "purge rl now = rl\<lparr>window := retained rl now\<rparr>"

definition canAdmit :: "rate_limiter \<Rightarrow> nat \<Rightarrow> bool" where
  "canAdmit rl now = (length (retained rl now) < maxCalls rl)"


definition timeUntilNextSlot :: "rate_limiter \<Rightarrow> nat \<Rightarrow> nat" where
  "timeUntilNextSlot rl now =
     (if canAdmit rl now then 0
      else (case retained rl now of
              [] \<Rightarrow> 0
            | t # ts \<Rightarrow> t + windowDurationMs rl - now))"

definition remainingCalls :: "rate_limiter \<Rightarrow> nat \<Rightarrow> nat" where
  "remainingCalls rl now = maxCalls rl - length (retained rl now)"

text \<open>The limiter \<^verbatim>\<open>new RateLimiter(10, 60000)\<close> of \<^verbatim>\<open>api.js\<close>.\<close>

definition new_apiRateLimiter :: rate_limiter where
  "new_apiRateLimiter = \<lparr>maxCalls = 10, windowDurationMs = 60000, window = []\<rparr>"


text \<open>
  Modelled from the spec: \<^verbatim>\<open>prepareImageForUpload\<close> of \<^verbatim>\<open>utils.js\<close>, which is not
  among the sources. The spec (section 4.2) has \<^verbatim>\<open>prepare(image, maxBytes)\<close> decode
  the source into a bitmap, return the image unchanged if its encoded size is within
  \<^verbatim>\<open>maxBytes\<close>, and otherwise re-encode along a fixed schedule of decreasing quality
  and scale until the size fits, failing with \<^verbatim>\<open>ImageTooLarge\<close> when the schedule is
  exhausted. The image is its data URI; the codec is a parameter.
\<close>

type_synonym image_payload = string

datatype prepare_error = ImageTooLarge

record 'b codec =
  decode_bitmap :: "image_payload \<Rightarrow> 'b"
  encode_at :: "'b \<Rightarrow> nat \<times> nat \<Rightarrow> image_payload"

definition encodedSize :: "image_payload \<Rightarrow> nat" where
  "encodedSize img = length img"

fun reencode ::
  "'b codec \<Rightarrow> 'b \<Rightarrow> nat \<Rightarrow> (nat \<times> nat) list \<Rightarrow> prepare_error + image_payload" where
  "reencode C bitmap maxBytes [] = Inl ImageTooLarge"
| "reencode C bitmap maxBytes (step # steps) =
     (let out = encode_at C bitmap step
      in if encodedSize out \<le> maxBytes then Inr out
         else reencode C bitmap maxBytes steps)"

definition prepare ::
  "'b codec \<Rightarrow> (nat \<times> nat) list \<Rightarrow> image_payload \<Rightarrow> nat
     \<Rightarrow> prepare_error + image_payload" where
  "prepare C schedule img maxBytes =
     (let bitmap = decode_bitmap C img
      in if encodedSize img \<le> maxBytes then Inr img
         else reencode C bitmap maxBytes schedule)"

section \<open>An environment for running the model\<close>

text \<open>
  The environment the explicit runs below use. The limiter is the one of the previous
  section. Stand-ins for the other helpers of \<^verbatim>\<open>utils.js\<close>: the prompt is trimmed, the
  friendly text of an error is its message, an image is uploaded as it is. The decoder
  maps each byte to the code unit of the same number (UTF-8 on ASCII input).
\<close>

definition demo_env :: "(nat \<times> rate_limiter, unit) env" where
  "demo_env =
     \<lparr>canMakeRequest = (\<lambda>(now, rl). (canAdmit rl now, (now, purge rl now))),
      getTimeUntilNextRequest = (\<lambda>(now, rl). (timeUntilNextSlot rl now, (now, rl))),
      getRemainingRequests = (\<lambda>(now, rl). (remainingCalls rl now, (now, rl))),
      sanitizePrompt = trim,
      getUserFriendlyError = message,
      prepareImageForUpload = Inr,
      JSON_parse = JSON_parse_fragment,
      TypeError_property = JsError ''TypeError'' ''Cannot read properties of null'',
      TypeError_convert = JsError ''TypeError'' ''Cannot convert object to primitive value'',
      decoder_start = (),
      decoder_byte = (\<lambda>d b. ([b], d))\<rparr>"

text \<open>A network that answers with a successful streaming response of the given
  chunks.\<close>

definition stream_response :: "bytes list \<Rightarrow> network" where
  "stream_response chunks req =
     Resolved \<lparr>ok = True, status = 200, json = Inr Null, body_chunks = chunks,
               body_end = Done\<rparr>"

text \<open>A network that answers with an error status and a JSON body.\<close>

definition error_response :: "nat \<Rightarrow> jsval \<Rightarrow> network" where
  "error_response code errorData req =
     Resolved \<lparr>ok = False, status = code, json = Inr errorData, body_chunks = [],
               body_end = Done\<rparr>"

text \<open>The same answers with the body of every response delivered as one chunk.\<close>

definition unchunked :: "network \<Rightarrow> network" where
  "unchunked fetch req =
     (case fetch req of
        Rejected e \<Rightarrow> Rejected e
      | Resolved resp \<Rightarrow> Resolved (resp\<lparr>body_chunks := [concat (body_chunks resp)]\<rparr>))"

section \<open>Reassembly of lines across chunks\<close>

lemma decode_append:
  "decode E d (a @ b) =
     (case decode E d a of (s, d') \<Rightarrow> (case decode E d' b of (t, d'') \<Rightarrow> (s @ t, d'')))"
  by (induction a arbitrary: d) (auto split: prod.splits)

lemma indexOf_LF_less: "indexOf_LF b = Some i \<Longrightarrow> i < length b"
  by (induction b arbitrary: i) (auto split: if_splits)

lemma indexOf_LF_append_Some:
  "indexOf_LF b = Some i \<Longrightarrow> indexOf_LF (b @ t) = Some i"
  by (induction b arbitrary: i) (auto split: if_splits)

text \<open>What the inner loop leaves in the buffer holds no line feed.\<close>

lemma process_buffer_rest:
  "process_buffer E sink b f = (calls, Inr (b', f')) \<Longrightarrow> indexOf_LF b' = None"
proof (induction E sink b f arbitrary: calls rule: process_buffer.induct)
  case (1 E sink buffer fullContent)
  show ?case
  proof (cases "indexOf_LF buffer")
    case None
    with "1.prems" show ?thesis by simp
  next
    case (Some i)
    show ?thesis
    proof (cases "process_line E sink fullContent (trim (take i buffer))")
      case (Throw e)
      with Some "1.prems" show ?thesis by simp
    next
      case (Continue f2 c2)
      obtain c3 r where pb: "process_buffer E sink (drop (i + 1) buffer) f2 = (c3, r)"
        by (cases "process_buffer E sink (drop (i + 1) buffer) f2")
      with Some Continue "1.prems" have "r = Inr (b', f')" by simp
      with "1.IH"[OF Some Continue] pb show ?thesis by simp
    qed
  qed
qed

text \<open>Processing a buffer with more input appended is processing the buffer first and
  then what it leaves with the input appended.\<close>

lemma process_buffer_append:
  "process_buffer E sink (b @ t) f =
     (case process_buffer E sink b f of
        (calls, Inl e) \<Rightarrow> (calls, Inl e)
      | (calls, Inr (b', f')) \<Rightarrow>
          (case process_buffer E sink (b' @ t) f' of (calls', r) \<Rightarrow> (calls @ calls', r)))"
proof (induction E sink b f rule: process_buffer.induct)
  case (1 E sink buffer fullContent)
  show ?case
  proof (cases "indexOf_LF buffer")
    case None
    then show ?thesis by (simp split: prod.splits)
  next
    case (Some i)
    have app: "indexOf_LF (buffer @ t) = Some i"
      using Some by (rule indexOf_LF_append_Some)
    have lt: "i < length buffer" using Some by (rule indexOf_LF_less)
    show ?thesis
    proof (cases "process_line E sink fullContent (trim (take i buffer))")
      case (Throw e)
      have l: "process_buffer E sink (buffer @ t) fullContent = ([], Inl e)"
        using app lt Throw by (subst process_buffer.simps) simp
      have r: "process_buffer E sink buffer fullContent = ([], Inl e)"
        using Some Throw by (subst process_buffer.simps) simp
      show ?thesis by (simp only: l r) simp
    next
      case (Continue f2 c2)
      have l: "process_buffer E sink (buffer @ t) fullContent =
          (case process_buffer E sink (drop (i + 1) buffer @ t) f2 of
             (calls', r) \<Rightarrow> (c2 @ calls', r))"
        using app lt Continue by (subst process_buffer.simps) simp
      have r: "process_buffer E sink buffer fullContent =
          (case process_buffer E sink (drop (i + 1) buffer) f2 of
             (calls', r) \<Rightarrow> (c2 @ calls', r))"
        using Some Continue by (subst process_buffer.simps) simp
      show ?thesis
        by (simp only: l r "1.IH"[OF Some Continue]) (simp split: prod.splits sum.splits)
    qed
  qed
qed

lemma read_loop_concat:
  "indexOf_LF buffer = None \<Longrightarrow>
   read_loop E sink d buffer f cs fin = read_loop E sink d buffer f [concat cs] fin"
proof (induction cs arbitrary: d buffer f)
  case Nil
  then show ?case by (cases fin) simp_all
next
  case (Cons v rest)
  obtain s1 d' where dv: "decode E d v = (s1, d')" by (cases "decode E d v")
  obtain s2 d'' where dr: "decode E d' (concat rest) = (s2, d'')"
    by (cases "decode E d' (concat rest)")
  have dall: "decode E d (v @ concat rest) = (s1 @ s2, d'')"
    by (simp add: decode_append dv dr)
  obtain calls r where pb: "process_buffer E sink (buffer @ s1) f = (calls, r)"
    by (cases "process_buffer E sink (buffer @ s1) f")
  have pball: "process_buffer E sink (buffer @ s1 @ s2) f =
     (case r of Inl e \<Rightarrow> (calls, Inl e)
      | Inr (b', f') \<Rightarrow>
          (case process_buffer E sink (b' @ s2) f' of (calls', r') \<Rightarrow> (calls @ calls', r')))"
    using process_buffer_append[of E sink "buffer @ s1" s2 f] pb
    by (simp split: sum.splits)
  show ?case
  proof (cases r)
    case (Inl e)
    then show ?thesis using dv dall pb pball by simp
  next
    case (Inr p)
    obtain b' f' where p: "p = (b', f')" by (cases p)
    have nl: "indexOf_LF b' = None"
      using pb Inr p process_buffer_rest[of E sink "buffer @ s1" f calls b' f'] by simp
    have "read_loop E sink d buffer f (v # rest) fin =
        (case read_loop E sink d' b' f' rest fin of (calls', r) \<Rightarrow> (calls @ calls', r))"
      using dv pb Inr p by simp
    also have "read_loop E sink d' b' f' rest fin = read_loop E sink d' b' f' [concat rest] fin"
      using Cons.IH[OF nl] .
    finally show ?thesis
      using dr dall pball Inr p by (simp split: prod.splits sum.splits)
  qed
qed

lemma read_stream_concat:
  "read_stream E sink cs fin = read_stream E sink [concat cs] fin"
  unfolding read_stream_def by (rule read_loop_concat) simp

lemma chat_exchange_unchunked:
  "chat_exchange E (unchunked fetch) sink req st = chat_exchange E fetch sink req st"
  unfolding chat_exchange_def unchunked_def
  by (cases "fetch req")
     (simp_all add: read_stream_concat[symmetric] Let_def split: sum.splits option.splits)

lemma sendChatMessage_unchunked:
  "sendChatMessage E (unchunked fetch) msg sink model st =
   sendChatMessage E fetch msg sink model st"
  unfolding sendChatMessage_def by (simp only: chat_exchange_unchunked)

lemma indexOf_LF_snoc:
  "indexOf_LF line = None \<Longrightarrow> indexOf_LF (line @ [LF]) = Some (length line)"
  by (induction line) (auto split: if_splits)

text \<open>A data line whose payload parses to a content delta \<open>c\<close> makes one call of
  \<^verbatim>\<open>onChunk\<close> and appends \<open>c\<close>.\<close>

lemma process_line_content:
  assumes "trim (''data: '' @ payload) = ''data: '' @ payload"
    and "payload \<noteq> ''[DONE]''"
    and "JSON_parse E payload = Inr parsed"
    and "\<not> nullish parsed"
    and "\<not> truthy (field parsed ''error'')"
    and "opt_field (opt_field (opt_index0 (field parsed ''choices'')) ''delta'') ''content''
           = Str c"
    and "c \<noteq> []"
  shows "process_line E True f (trim (''data: '' @ payload))
           = Continue (f @ c) [(Str c, f @ c)]"
  using assms
  by (simp add: process_line_def startsWith_def process_payload_def try_payload_def)

lemma single_frame:
  assumes "fst (decode E (decoder_start E) bs) = ''data: '' @ payload @ [LF]"
    and "indexOf_LF (''data: '' @ payload) = None"
    and "trim (''data: '' @ payload) = ''data: '' @ payload"
    and "payload \<noteq> ''[DONE]''"
    and "JSON_parse E payload = Inr parsed"
    and "\<not> nullish parsed"
    and "\<not> truthy (field parsed ''error'')"
    and "opt_field (opt_field (opt_index0 (field parsed ''choices'')) ''delta'') ''content''
           = Str c"
    and "c \<noteq> []"
  shows "read_stream E True [bs] Done = ([(Str c, c)], Inr c)"
proof -
  obtain d' where d: "decode E (decoder_start E) bs = (''data: '' @ payload @ [LF], d')"
    using assms(1) by (cases "decode E (decoder_start E) bs") simp
  have i: "indexOf_LF ((''data: '' @ payload) @ [LF]) = Some (length (''data: '' @ payload))"
    using assms(2) by (rule indexOf_LF_snoc)
  have pl: "process_line E True [] (trim (''data: '' @ payload))
              = Continue ([] @ c) [(Str c, [] @ c)]"
    using assms(3-9) by (rule process_line_content)
  have pb: "process_buffer E True ((''data: '' @ payload) @ [LF]) []
              = ([(Str c, c)], Inr ([], c))"
    apply (subst process_buffer.simps)
    apply (simp only: i option.case)
    using pl apply simp
    done
  show ?thesis
    unfolding read_stream_def using d pb by simp
qed

text \<open>
  Claim C4. The calls of \<^verbatim>\<open>onChunk\<close> and the result of the stream reader depend only
  on the concatenation of the chunks: reading any sequence of chunks equals reading
  their bytes as a single chunk, and so does a whole call of \<^verbatim>\<open>sendChatMessage\<close>.
  In particular a data line whose payload carries the content delta \<open>c\<close>, cut into two
  chunks \<open>a\<close> and \<open>b\<close> at any place, makes exactly one call, with \<open>c\<close>.
\<close>

theorem chunk_split_independence:
  "read_stream E sink chunks fin = read_stream E sink [concat chunks] fin
   \<and> sendChatMessage E (unchunked fetch) msg sink model st
       = sendChatMessage E fetch msg sink model st
   \<and> (fst (decode E (decoder_start E) (a @ b)) = ''data: '' @ payload @ [LF]
        \<and> indexOf_LF (''data: '' @ payload) = None
        \<and> trim (''data: '' @ payload) = ''data: '' @ payload
        \<and> payload \<noteq> ''[DONE]''
        \<and> JSON_parse E payload = Inr parsed
        \<and> \<not> nullish parsed
        \<and> \<not> truthy (field parsed ''error'')
        \<and> opt_field (opt_field (opt_index0 (field parsed ''choices'')) ''delta'') ''content''
             = Str c
        \<and> c \<noteq> []
       \<longrightarrow> read_stream E True [a, b] Done = ([(Str c, c)], Inr c))"
proof (intro conjI impI)
  show "read_stream E sink chunks fin = read_stream E sink [concat chunks] fin"
    by (rule read_stream_concat)
  show "sendChatMessage E (unchunked fetch) msg sink model st
          = sendChatMessage E fetch msg sink model st"
    by (rule sendChatMessage_unchunked)
next
  assume h: "fst (decode E (decoder_start E) (a @ b)) = ''data: '' @ payload @ [LF]
        \<and> indexOf_LF (''data: '' @ payload) = None
        \<and> trim (''data: '' @ payload) = ''data: '' @ payload
        \<and> payload \<noteq> ''[DONE]''
        \<and> JSON_parse E payload = Inr parsed
        \<and> \<not> nullish parsed
        \<and> \<not> truthy (field parsed ''error'')
        \<and> opt_field (opt_field (opt_index0 (field parsed ''choices'')) ''delta'') ''content''
             = Str c
        \<and> c \<noteq> []"
  have "read_stream E True [a, b] Done = read_stream E True [concat [a, b]] Done"
    by (rule read_stream_concat)
  also have "\<dots> = read_stream E True [a @ b] Done" by simp
  also have "\<dots> = ([(Str c, c)], Inr c)"
    using h by (intro single_frame[where payload = payload and parsed = parsed]) simp_all
  finally show "read_stream E True [a, b] Done = ([(Str c, c)], Inr c)" .
qed

text \<open>The example of the spec, cut inside the content string.\<close>

theorem chunk_split_independence_witness:
  \<open>JSON_parse demo_env ''{"choices":[{"delta":{"content":"Hello"}}]}''
     = Inr (Obj [(''choices'', Arr [Obj [(''delta'', Obj [(''content'', Str ''Hello'')])]])])
   \<and> read_stream demo_env True
       [''data: {"choices":[{"delta":{"content":"He'', ''llo"}}]}'' @ [LF]] Done
     = ([(Str ''Hello'', ''Hello'')], Inr ''Hello'')\<close>
proof -
  let ?payload = \<open>''{"choices":[{"delta":{"content":"Hello"}}]}''\<close>
  let ?parsed = "Obj [(''choices'', Arr [Obj [(''delta'', Obj [(''content'', Str ''Hello'')])]])]"
  let ?a = \<open>''data: {"choices":[{"delta":{"content":"He''\<close>
  let ?b = \<open>''llo"}}]}'' @ [LF]\<close>
  have h1: "fst (decode demo_env (decoder_start demo_env) (?a @ ?b)) = ''data: '' @ ?payload @ [LF]"
    by code_simp
  have h2: "indexOf_LF (''data: '' @ ?payload) = None" by code_simp
  have h3: "trim (''data: '' @ ?payload) = ''data: '' @ ?payload" by code_simp
  have h4: "?payload \<noteq> ''[DONE]''" by simp
  have h5: "JSON_parse demo_env ?payload = Inr ?parsed" by code_simp
  have h6: "\<not> nullish ?parsed" by code_simp
  have h7: "\<not> truthy (field ?parsed ''error'')" by code_simp
  have h8: "opt_field (opt_field (opt_index0 (field ?parsed ''choices'')) ''delta'') ''content''
              = Str ''Hello''" by code_simp
  have h9: "''Hello'' \<noteq> []" by simp
  from chunk_split_independence[where E = demo_env and a = ?a and b = ?b
      and payload = ?payload and parsed = ?parsed and c = "''Hello''"]
  have "read_stream demo_env True [?a, ?b] Done = ([(Str ''Hello'', ''Hello'')], Inr ''Hello'')"
    using h1 h2 h3 h4 h5 h6 h7 h8 h9 by blast
  with h5 show ?thesis by blast
qed

section \<open>Running the concrete environment\<close>

lemma demo_env_fields:
  "canMakeRequest demo_env = (\<lambda>(now, rl). (canAdmit rl now, (now, purge rl now)))"
  "getTimeUntilNextRequest demo_env = (\<lambda>(now, rl). (timeUntilNextSlot rl now, (now, rl)))"
  "getRemainingRequests demo_env = (\<lambda>(now, rl). (remainingCalls rl now, (now, rl)))"
  "sanitizePrompt demo_env = trim"
  "getUserFriendlyError demo_env = message"
  "prepareImageForUpload demo_env = Inr"
  by (simp_all add: demo_env_def)

lemma demo_admits_initially:
  "checkRateLimit demo_env (0, new_apiRateLimiter) = (Inr (), (0, new_apiRateLimiter))"
  by (simp add: checkRateLimit_def demo_env_fields canAdmit_def retained_def purge_def
      new_apiRateLimiter_def)

lemmas demo_run =
  sendChatMessage_def chat_exchange_def chat_catch_def pop_history_def demo_admits_initially
  demo_env_fields stream_response_def error_response_def initial_state_def or_current_def
  trim_def is_white_space_def Let_def

section \<open>Validation before the network\<close>

lemma checkRateLimit_admitted:
  "fst (canMakeRequest E rl) \<Longrightarrow> checkRateLimit E rl = (Inr (), snd (canMakeRequest E rl))"
  by (cases "canMakeRequest E rl") (simp add: checkRateLimit_def)

lemma checkRateLimit_rejected:
  "\<not> fst (canMakeRequest E rl) \<Longrightarrow> isl (fst (checkRateLimit E rl))"
  by (cases "canMakeRequest E rl") (simp add: checkRateLimit_def split: prod.splits)

text \<open>
  Claim C5. When the limiter refuses the call or the prompt sanitizes to the empty
  string, \<^verbatim>\<open>sendChatMessage\<close> throws without sending a request, without calling
  \<^verbatim>\<open>onChunk\<close> and with the chat history as it was; \<^verbatim>\<open>generateImage\<close>, \<^verbatim>\<open>editImage\<close>,
  \<^verbatim>\<open>analyzeImage\<close> and \<^verbatim>\<open>enhancePromptWithAI\<close> throw before their request as well.
\<close>

theorem validation_before_network:
  assumes "\<not> fst (canMakeRequest E (apiRateLimiter st)) \<or> sanitizePrompt E msg = []"
  shows "isl (outcome (fst (sendChatMessage E fetch msg sink model st)))
       \<and> fetched (fst (sendChatMessage E fetch msg sink model st)) = []
       \<and> onChunk_calls (fst (sendChatMessage E fetch msg sink model st)) = []
       \<and> chatHistory (snd (sendChatMessage E fetch msg sink model st)) = chatHistory st
       \<and> isl (fst (generateImage_request E msg model st))
       \<and> chatHistory (snd (generateImage_request E msg model st)) = chatHistory st
       \<and> isl (fst (editImage_request E img msg model st))
       \<and> chatHistory (snd (editImage_request E img msg model st)) = chatHistory st
       \<and> isl (fst (analyzeImage_request E img (Some msg) st))
       \<and> chatHistory (snd (analyzeImage_request E img (Some msg) st)) = chatHistory st
       \<and> isl (fst (enhancePromptWithAI_request E msg img' st))
       \<and> chatHistory (snd (enhancePromptWithAI_request E msg img' st)) = chatHistory st"
proof (cases "fst (canMakeRequest E (apiRateLimiter st))")
  case True
  with assms have "sanitizePrompt E msg = []" by simp
  with True show ?thesis
    by (simp add: sendChatMessage_def generateImage_request_def editImage_request_def
        analyzeImage_request_def enhancePromptWithAI_request_def
        checkRateLimit_admitted Let_def)
next
  case False
  obtain e rl where c: "checkRateLimit E (apiRateLimiter st) = (Inl e, rl)"
    using checkRateLimit_rejected[OF False]
    by (cases "checkRateLimit E (apiRateLimiter st)") (auto simp: isl_def)
  show ?thesis
    by (simp add: sendChatMessage_def generateImage_request_def editImage_request_def
        analyzeImage_request_def enhancePromptWithAI_request_def c)
qed

text \<open>Ten calls recorded half a second ago: the eleventh is refused for 60 seconds.\<close>

theorem validation_before_network_witness:
  \<open>\<not> fst (canMakeRequest demo_env
             (1000, new_apiRateLimiter\<lparr>window := [500, 500, 500, 500, 500, 500, 500, 500, 500, 500]\<rparr>))
   \<and> sendChatMessage demo_env
        (stream_response [''data: {"choices":[{"delta":{"content":"Hello"}}]}'' @ [LF]])
        ''hi'' True None
        (initial_state
           (1000, new_apiRateLimiter\<lparr>window := [500, 500, 500, 500, 500, 500, 500, 500, 500, 500]\<rparr>))
      = (\<lparr>outcome = Inl (Error ''Rate limit exceeded. Please wait 60 seconds before making another request.''),
          onChunk_calls = [], fetched = []\<rparr>,
         initial_state
           (1000, new_apiRateLimiter\<lparr>window := [500, 500, 500, 500, 500, 500, 500, 500, 500, 500]\<rparr>))
   \<and> sanitizePrompt demo_env ''   '' = []
   \<and> sendChatMessage demo_env
        (stream_response [''data: {"choices":[{"delta":{"content":"Hello"}}]}'' @ [LF]])
        ''   '' True None (initial_state (0, new_apiRateLimiter))
      = (\<lparr>outcome = Inl (Error ''Invalid message provided''), onChunk_calls = [], fetched = []\<rparr>,
         initial_state (0, new_apiRateLimiter))\<close>
proof -
  let ?init = "initial_state (0::nat, new_apiRateLimiter)"
  have g: "sanitizePrompt demo_env ''   '' = []"
    by (simp add: demo_env_fields trim_def is_white_space_def)
  let ?rl = "(1000::nat, new_apiRateLimiter\<lparr>window := [500, 500, 500, 500, 500, 500, 500, 500, 500, 500]\<rparr>)"
  let ?st = "initial_state ?rl"
  let ?net = \<open>stream_response [''data: {"choices":[{"delta":{"content":"Hello"}}]}'' @ [LF]]\<close>
  let ?r = "sendChatMessage demo_env ?net ''hi'' True None ?st"
  have h': "\<not> fst (canMakeRequest demo_env ?rl)"
    by (simp add: demo_env_def new_apiRateLimiter_def canAdmit_def retained_def)
  then have h: "\<not> fst (canMakeRequest demo_env (apiRateLimiter ?st))"
    by (simp add: initial_state_def)
  have e: "outcome (fst ?r)
      = Inl (Error ''Rate limit exceeded. Please wait 60 seconds before making another request.'')"
    by (simp add: sendChatMessage_def checkRateLimit_def demo_env_def initial_state_def
        new_apiRateLimiter_def canAdmit_def retained_def purge_def timeUntilNextSlot_def
        ceil_seconds_def)
  have s: "snd ?r = ?st"
    by (simp add: sendChatMessage_def checkRateLimit_def demo_env_def initial_state_def
        new_apiRateLimiter_def canAdmit_def retained_def purge_def timeUntilNextSlot_def
        ceil_seconds_def)
  from validation_before_network[of demo_env ?st "''hi''" ?net True None] h
  have "fetched (fst ?r) = [] \<and> onChunk_calls (fst ?r) = []"
    by blast
  with e s have r: "?r = (\<lparr>outcome = Inl (Error ''Rate limit exceeded. Please wait 60 seconds before making another request.''),
          onChunk_calls = [], fetched = []\<rparr>, ?st)"
    by (cases ?r) auto
  let ?rinit = "sendChatMessage demo_env ?net ''   '' True None ?init"
  have e0: "outcome (fst ?rinit) = Inl (Error ''Invalid message provided'')"
    by (simp add: demo_run)
  have s0: "snd ?rinit = ?init"
    by (simp add: demo_run)
  from validation_before_network[of demo_env ?init "''   ''" ?net True None] g
  have "fetched (fst ?rinit) = [] \<and> onChunk_calls (fst ?rinit) = []"
    by blast
  with e0 s0 have r0: "?rinit = (\<lparr>outcome = Inl (Error ''Invalid message provided''),
          onChunk_calls = [], fetched = []\<rparr>, ?init)"
    by (cases ?rinit) auto
  from h' r g r0 show ?thesis by blast
qed

section \<open>A stream without content\<close>

text \<open>
  Claim C9. When the call is admitted, the message is not empty after sanitizing, the
  response is successful and the stream ends with an empty \<^verbatim>\<open>fullContent\<close>, the call
  resolves with \<^verbatim>\<open>No response received\<close>; no assistant turn is appended and the
  history ends with the user turn just pushed.
\<close>

theorem no_response_received:
  assumes "fst (canMakeRequest E (apiRateLimiter st))"
    and "sanitizePrompt E msg \<noteq> []"
    and "ok resp"
    and "snd (read_stream E sink (body_chunks resp) (body_end resp)) = Inr []"
  shows "outcome (fst (sendChatMessage E (\<lambda>req. Resolved resp) msg sink model st))
           = Inr ''No response received''
       \<and> chatHistory (snd (sendChatMessage E (\<lambda>req. Resolved resp) msg sink model st))
           = chatHistory st @ [\<lparr>role = user, content = sanitizePrompt E msg\<rparr>]"
proof -
  obtain calls where rs: "read_stream E sink (body_chunks resp) (body_end resp) = (calls, Inr [])"
    using assms(4) by (cases "read_stream E sink (body_chunks resp) (body_end resp)") simp
  show ?thesis
    using assms(1-3) rs
    by (simp add: sendChatMessage_def checkRateLimit_admitted chat_exchange_def Let_def)
qed

text \<open>A stream of a keep-alive comment and the sentinel.\<close>

theorem no_response_received_witness:
  \<open>outcome (fst (sendChatMessage demo_env
       (\<lambda>req. Resolved \<lparr>ok = True, status = 200, json = Inr Null,
          body_chunks = ['': OPENROUTER PROCESSING'' @ [LF, LF], ''data: [DONE]'' @ [LF, LF]],
          body_end = Done\<rparr>)
       ''hi'' True None (initial_state (0, new_apiRateLimiter))))
     = Inr ''No response received''
   \<and> chatHistory (snd (sendChatMessage demo_env
       (\<lambda>req. Resolved \<lparr>ok = True, status = 200, json = Inr Null,
          body_chunks = ['': OPENROUTER PROCESSING'' @ [LF, LF], ''data: [DONE]'' @ [LF, LF]],
          body_end = Done\<rparr>)
       ''hi'' True None (initial_state (0, new_apiRateLimiter))))
     = [\<lparr>role = user, content = ''hi''\<rparr>]\<close>
proof -
  let ?resp = "\<lparr>ok = True, status = 200, json = Inr Null,
          body_chunks = ['': OPENROUTER PROCESSING'' @ [LF, LF], ''data: [DONE]'' @ [LF, LF]],
          body_end = Done\<rparr>"
  let ?st = "initial_state (0::nat, new_apiRateLimiter)"
  have h1: "fst (canMakeRequest demo_env (apiRateLimiter ?st))"
    by (simp add: demo_env_def initial_state_def new_apiRateLimiter_def canAdmit_def retained_def)
  have h2: "sanitizePrompt demo_env ''hi'' = ''hi''"
    by (simp add: demo_env_def trim_def is_white_space_def)
  have h3: "ok ?resp" by simp
  have h4: "snd (read_stream demo_env True (body_chunks ?resp) (body_end ?resp)) = Inr []"
    by code_simp
  have h5: "chatHistory ?st = []" by (simp add: initial_state_def)
  from no_response_received[of demo_env ?st "''hi''" ?resp True None] h1 h2 h3 h4 h5
  show ?thesis by simp
qed

section \<open>The terminal sentinel\<close>

text \<open>
  Claim C1, as amended. A data line equal to the sentinel \<^verbatim>\<open>[DONE]\<close> is skipped: it
  makes no call of \<^verbatim>\<open>onChunk\<close>, leaves \<^verbatim>\<open>fullContent\<close> as it is, and does not end the
  loop: the lines after it in the buffer are processed exactly as if the sentinel line
  were not there.
\<close>

theorem done_line_skipped:
  "process_line E sink f ''data: [DONE]'' = Continue f []
   \<and> process_buffer E sink (''data: [DONE]'' @ [LF] @ rest) f = process_buffer E sink rest f"
proof
  show l: "process_line E sink f ''data: [DONE]'' = Continue f []"
    by (simp add: process_line_def startsWith_def)
  have i: "indexOf_LF (''data: [DONE]'' @ [LF] @ rest) = Some 12"
    by (simp add: LF_def)
  have t: "trim ''data: [DONE]'' = ''data: [DONE]''"
    by (simp add: trim_def is_white_space_def)
  show "process_buffer E sink (''data: [DONE]'' @ [LF] @ rest) f = process_buffer E sink rest f"
    apply (subst process_buffer.simps)
    apply (simp only: i option.case)
    apply (simp add: t l)
    done
qed

text \<open>
  The claim as stated fails: a content frame delivered after the sentinel, here in a
  later chunk, is passed to \<^verbatim>\<open>onChunk\<close> and becomes the reply.
\<close>

theorem increments_after_done:
  \<open>sendChatMessage demo_env
      (stream_response
         [''data: [DONE]'' @ [LF], ''data: {"choices":[{"delta":{"content":"late"}}]}'' @ [LF]])
      ''hi'' True None (initial_state (0, new_apiRateLimiter))
    = (\<lparr>outcome = Inr ''late'', onChunk_calls = [(Str ''late'', ''late'')],
        fetched = [\<lparr>url = ''/api/chat'',
                    body = ChatBody [\<lparr>role = user, content = ''hi''\<rparr>]
                             ''anthropic/claude-sonnet-4.5'' True False\<rparr>]\<rparr>,
       (initial_state (0, new_apiRateLimiter))
         \<lparr>chatHistory := [\<lparr>role = user, content = ''hi''\<rparr>,
                           \<lparr>role = assistant, content = ''late''\<rparr>]\<rparr>)\<close>
proof -
  have rs: \<open>read_stream demo_env True
      [''data: [DONE]'' @ [LF], ''data: {"choices":[{"delta":{"content":"late"}}]}'' @ [LF]] Done
      = ([(Str ''late'', ''late'')], Inr ''late'')\<close>
    by code_simp
  show ?thesis by (simp add: demo_run rs[simplified])
qed

section \<open>Errors inside the stream\<close>

text \<open>What the \<^verbatim>\<open>try\<close> and \<^verbatim>\<open>catch\<close> around \<^verbatim>\<open>JSON.parse\<close> do with a payload: a parse
  failure is dropped; an error payload without a message throws \<^verbatim>\<open>Stream error\<close>; an
  error payload with any other message throws it and drops it again.\<close>

lemma parse_failure_swallowed:
  "JSON_parse E data = Inl e \<Longrightarrow> message e \<noteq> ''Stream error'' \<Longrightarrow>
   process_payload E sink f data = Continue f []"
  by (simp add: process_payload_def try_payload_def)

lemma upstream_error_without_message_thrown:
  "JSON_parse E data = Inr parsed \<Longrightarrow> \<not> nullish parsed \<Longrightarrow>
   truthy (field parsed ''error'') \<Longrightarrow>
   \<not> truthy (field (field parsed ''error'') ''message'') \<Longrightarrow>
   process_payload E sink f data = Throw (Error ''Stream error'')"
  by (simp add: process_payload_def try_payload_def)

lemma upstream_error_with_message_swallowed:
  "JSON_parse E data = Inr parsed \<Longrightarrow> \<not> nullish parsed \<Longrightarrow>
   truthy (field parsed ''error'') \<Longrightarrow>
   truthy (field (field parsed ''error'') ''message'') \<Longrightarrow>
   ToString (field (field parsed ''error'') ''message'') = Some m \<Longrightarrow>
   m \<noteq> ''Stream error'' \<Longrightarrow>
   process_payload E sink f data = Continue f []"
  by (simp add: process_payload_def try_payload_def)

text \<open>
  Claim C2, at the input where the code departs from it: the stream carries one data
  line whose payload has an \<^verbatim>\<open>error\<close> field with a message. The call does not reject:
  it resolves with \<^verbatim>\<open>No response received\<close> and keeps the user turn.
\<close>

theorem upstream_error_swallowed:
  \<open>sendChatMessage demo_env
      (stream_response [''data: {"error":{"message":"Upstream overloaded","code":502}}'' @ [LF]])
      ''hi'' True None (initial_state (0, new_apiRateLimiter))
    = (\<lparr>outcome = Inr ''No response received'', onChunk_calls = [],
        fetched = [\<lparr>url = ''/api/chat'',
                    body = ChatBody [\<lparr>role = user, content = ''hi''\<rparr>]
                             ''anthropic/claude-sonnet-4.5'' True False\<rparr>]\<rparr>,
       (initial_state (0, new_apiRateLimiter))
         \<lparr>chatHistory := [\<lparr>role = user, content = ''hi''\<rparr>]\<rparr>)\<close>
proof -
  have rs: \<open>read_stream demo_env True
      [''data: {"error":{"message":"Upstream overloaded","code":502}}'' @ [LF]] Done
      = ([], Inr [])\<close>
    by code_simp
  show ?thesis by (simp add: demo_run rs[simplified])
qed

section \<open>Rollback of the user turn\<close>

text \<open>A failure inside the stream removes the pushed turn and nothing else.\<close>

lemma mid_stream_failure_restores_history:
  assumes "fst (canMakeRequest E (apiRateLimiter st))"
    and "sanitizePrompt E msg \<noteq> []"
    and "ok resp"
    and "snd (read_stream E sink (body_chunks resp) (body_end resp)) = Inl e"
  shows "chatHistory (snd (sendChatMessage E (\<lambda>req. Resolved resp) msg sink model st))
           = chatHistory st"
proof -
  obtain calls where
    rs: "read_stream E sink (body_chunks resp) (body_end resp) = (calls, Inl e)"
    using assms(4) by (cases "read_stream E sink (body_chunks resp) (body_end resp)") simp
  show ?thesis
    using assms(1-3) rs
    by (simp add: sendChatMessage_def checkRateLimit_admitted chat_exchange_def
        chat_catch_def pop_history_def Let_def)
qed

text \<open>An error status pops the pushed turn before throwing, and the \<^verbatim>\<open>catch\<close> block
  pops once more when the history before the call ended with a user turn.\<close>

lemma error_status_pops_twice:
  assumes "fst (canMakeRequest E (apiRateLimiter st))"
    and "sanitizePrompt E msg \<noteq> []"
    and "\<not> ok resp"
    and "json resp = Inr errorData"
  shows "chatHistory (snd (sendChatMessage E (\<lambda>req. Resolved resp) msg sink model st))
           = (if chatHistory st \<noteq> [] \<and> role (last (chatHistory st)) = user
              then butlast (chatHistory st) else chatHistory st)"
  using assms
  by (simp add: sendChatMessage_def checkRateLimit_admitted chat_exchange_def
      chat_catch_def pop_history_def Let_def split: option.splits)

text \<open>
  Claim C3, at the input where the code departs from it. A first call whose stream
  carries no content succeeds and leaves the user turn \<^verbatim>\<open>a\<close> in the history; a second
  call, answered with status 500, then leaves the history empty: the turn \<^verbatim>\<open>a\<close> of the
  earlier call is removed together with the turn \<^verbatim>\<open>b\<close> just pushed.
\<close>

theorem rollback_removes_two_turns:
  \<open>sendChatMessage demo_env (stream_response [''data: [DONE]'' @ [LF]])
       ''a'' True None (initial_state (0, new_apiRateLimiter))
     = (\<lparr>outcome = Inr ''No response received'', onChunk_calls = [],
         fetched = [\<lparr>url = ''/api/chat'',
                     body = ChatBody [\<lparr>role = user, content = ''a''\<rparr>]
                              ''anthropic/claude-sonnet-4.5'' True False\<rparr>]\<rparr>,
        (initial_state (0, new_apiRateLimiter))
          \<lparr>chatHistory := [\<lparr>role = user, content = ''a''\<rparr>]\<rparr>)
   \<and> chatHistory (snd (sendChatMessage demo_env
        (error_response 500 (Obj [(''error'', Str ''Server configuration error'')]))
        ''b'' True None
        ((initial_state (0, new_apiRateLimiter))
           \<lparr>chatHistory := [\<lparr>role = user, content = ''a''\<rparr>]\<rparr>)))
     = []\<close>
proof -
  have rs: \<open>read_stream demo_env True [''data: [DONE]'' @ [LF]] Done = ([], Inr [])\<close>
    by code_simp
  show ?thesis
    by (simp add: demo_run rs[simplified] nullish_def own_property_def)
qed

section \<open>The model id forwarded to the proxy\<close>

text \<open>
  Claim C7, as amended. The model id in the request of \<^verbatim>\<open>generateImage\<close>,
  \<^verbatim>\<open>editImage\<close> and \<^verbatim>\<open>sendChatMessage\<close> is the caller's id whenever that is a non-empty
  string, taken as it is; the currently selected model is sent only when the caller
  gives no id or the empty string. No registry is consulted.
\<close>

theorem forwarded_model_is_given_or_current:
  "(fst (generateImage_request E p model st) = Inr req \<longrightarrow>
      body req = GenerateBody (sanitizePrompt E p)
                   (or_current model (currentGenerationModel st)))
   \<and> (fst (editImage_request E img p model st) = Inr req' \<longrightarrow>
      (\<exists>prepared. body req' = EditBody (sanitizePrompt E p) prepared
                                 (or_current model (currentEditModel st))))
   \<and> (fetched (fst (sendChatMessage E fetch p sink model st)) = []
      \<or> fetched (fst (sendChatMessage E fetch p sink model st))
          = [\<lparr>url = ''/api/chat'',
              body = ChatBody (chatHistory st @ [\<lparr>role = user, content = sanitizePrompt E p\<rparr>])
                       (or_current model (currentChatModel st)) True (webSearchEnabled st)\<rparr>])
   \<and> (m \<noteq> [] \<longrightarrow> or_current (Some m) c = m)
   \<and> or_current (Some []) c = c
   \<and> or_current None c = c"
proof (intro conjI impI)
  assume "fst (generateImage_request E p model st) = Inr req"
  then show "body req = GenerateBody (sanitizePrompt E p)
                          (or_current model (currentGenerationModel st))"
    by (cases "checkRateLimit E (apiRateLimiter st)")
       (auto simp: generateImage_request_def Let_def split: sum.splits if_splits)
next
  assume "fst (editImage_request E img p model st) = Inr req'"
  then show "\<exists>prepared. body req' = EditBody (sanitizePrompt E p) prepared
                                 (or_current model (currentEditModel st))"
    by (cases "checkRateLimit E (apiRateLimiter st)")
       (auto simp: editImage_request_def Let_def split: sum.splits if_splits)
next
  show "fetched (fst (sendChatMessage E fetch p sink model st)) = []
      \<or> fetched (fst (sendChatMessage E fetch p sink model st))
          = [\<lparr>url = ''/api/chat'',
              body = ChatBody (chatHistory st @ [\<lparr>role = user, content = sanitizePrompt E p\<rparr>])
                       (or_current model (currentChatModel st)) True (webSearchEnabled st)\<rparr>]"
    by (cases "checkRateLimit E (apiRateLimiter st)")
       (auto simp: sendChatMessage_def Let_def split: sum.splits if_splits prod.splits)
qed (simp_all add: or_current_def)

text \<open>Without an id the selected model is sent; with one, that id is.\<close>

theorem forwarded_model_is_given_or_current_witness:
  "generateImage_request demo_env ''a cat'' None (initial_state (0, new_apiRateLimiter))
     = (Inr \<lparr>url = ''/api/generate'',
             body = GenerateBody ''a cat'' ''black-forest-labs/flux.2-pro''\<rparr>,
        initial_state (0, new_apiRateLimiter))
   \<and> (\<exists>prepared.
        body \<lparr>url = ''/api/edit'',
              body = EditBody ''add a hat'' ''data:image/png;base64,AAAA'' ''my/own-model''\<rparr>
          = EditBody (sanitizePrompt demo_env ''add a hat'') prepared
              (or_current (Some ''my/own-model'')
                 (currentEditModel (initial_state (0::nat, new_apiRateLimiter)))))
   \<and> or_current (Some ''my/own-model'') ''openai/gpt-5-image-mini'' = ''my/own-model''"
proof -
  let ?st = "initial_state (0::nat, new_apiRateLimiter)"
  let ?r1 = "\<lparr>url = ''/api/generate'',
            body = GenerateBody ''a cat'' ''black-forest-labs/flux.2-pro''\<rparr>"
  let ?r2 = "\<lparr>url = ''/api/edit'',
            body = EditBody ''add a hat'' ''data:image/png;base64,AAAA'' ''my/own-model''\<rparr>"
  have h1: "generateImage_request demo_env ''a cat'' None ?st = (Inr ?r1, ?st)"
    by (simp add: generateImage_request_def demo_run)
  have h2: "fst (editImage_request demo_env ''data:image/png;base64,AAAA'' ''add a hat''
             (Some ''my/own-model'') ?st) = Inr ?r2"
    by (simp add: editImage_request_def demo_run)
  have h3: "''my/own-model'' \<noteq> []" by simp
  from forwarded_model_is_given_or_current[of demo_env "''add a hat''" "Some ''my/own-model''"
      ?st _ "''data:image/png;base64,AAAA''" ?r2,
      where m = "''my/own-model''" and c = "''openai/gpt-5-image-mini''"] h2 h3
  have "(\<exists>prepared. body ?r2 = EditBody (sanitizePrompt demo_env ''add a hat'') prepared
              (or_current (Some ''my/own-model'') (currentEditModel ?st)))
     \<and> or_current (Some ''my/own-model'') ''openai/gpt-5-image-mini'' = ''my/own-model''"
    by blast
  with h1 show ?thesis by blast
qed

text \<open>The claim as stated fails: an id that is in no registry is sent as it is.\<close>

theorem unregistered_model_forwarded:
  "fst (generateImage_request demo_env ''a cat'' (Some ''not-a-model'')
          (initial_state (0, new_apiRateLimiter)))
     = Inr \<lparr>url = ''/api/generate'', body = GenerateBody ''a cat'' ''not-a-model''\<rparr>
   \<and> ''not-a-model'' \<notin> set (registry_keys IMAGE_GENERATION_MODELS)"
  by (simp add: generateImage_request_def demo_run registry_keys_def IMAGE_GENERATION_MODELS_def)

section \<open>The selected models\<close>

lemma initial_models_registered: "selected_models_registered (initial_state rl)"
  by (simp add: selected_models_registered_def initial_state_def registry_keys_def
      IMAGE_GENERATION_MODELS_def CHAT_MODELS_def)

lemma registry_lookup_own:
  assumes "modelId \<notin> set Object_prototype_properties"
  shows "registry_lookup_truthy reg modelId = (modelId \<in> set (registry_keys reg))"
proof (cases "map_of reg modelId")
  case None
  have nk: "modelId \<notin> set (registry_keys reg)"
    using None by (simp add: registry_keys_def map_of_eq_None_iff)
  show ?thesis
    unfolding registry_lookup_truthy_def None using assms nk by simp
next
  case (Some info)
  then have "(modelId, info) \<in> set reg" by (rule map_of_SomeD)
  then have "modelId \<in> fst ` set reg" by force
  then have k: "modelId \<in> set (registry_keys reg)" by (simp add: registry_keys_def)
  show ?thesis
    unfolding registry_lookup_truthy_def Some using k by simp
qed

text \<open>For every id that is not the name of an inherited property, the setters keep the
  selected models inside their registries.\<close>

lemma setters_keep_registered:
  assumes "selected_models_registered st" and "modelId \<notin> set Object_prototype_properties"
  shows "selected_models_registered (setGenerationModel modelId st)"
    and "selected_models_registered (setEditModel modelId st)"
    and "selected_models_registered (setChatModel modelId st)"
  using assms
  by (simp_all add: selected_models_registered_def setGenerationModel_def setEditModel_def
      setChatModel_def registry_lookup_own)

text \<open>
  Claim C10, at the input where the code departs from it. The test
  \<^verbatim>\<open>if (REGISTRY[modelId])\<close> also succeeds for the name of a property inherited from
  \<^verbatim>\<open>Object.prototype\<close>, so each setter stores such a name although it is no key of
  the registry.
\<close>

theorem setter_accepts_inherited_property_name:
  "currentGenerationModel (setGenerationModel ''constructor'' (initial_state rl))
     = ''constructor''
   \<and> ''constructor'' \<notin> set (registry_keys IMAGE_GENERATION_MODELS)
   \<and> currentEditModel (setEditModel ''toString'' (initial_state rl)) = ''toString''
   \<and> ''toString'' \<notin> set (registry_keys IMAGE_GENERATION_MODELS)
   \<and> currentChatModel (setChatModel ''valueOf'' (initial_state rl)) = ''valueOf''
   \<and> ''valueOf'' \<notin> set (registry_keys CHAT_MODELS)
   \<and> \<not> selected_models_registered (setGenerationModel ''constructor'' (initial_state rl))"
  by (simp add: setGenerationModel_def setEditModel_def setChatModel_def
      registry_lookup_truthy_def Object_prototype_properties_def registry_keys_def
      IMAGE_GENERATION_MODELS_def CHAT_MODELS_def initial_state_def
      selected_models_registered_def)

section \<open>The rate limiter of the spec\<close>

text \<open>The API operations call the limiter through \<^verbatim>\<open>checkRateLimit\<close> only.\<close>

lemma chat_exchange_limiter:
  "apiRateLimiter (snd (snd (chat_exchange E fetch sink req st))) = apiRateLimiter st"
  by (simp add: chat_exchange_def pop_history_def Let_def
      split: fetch_result.splits sum.splits prod.splits option.splits)

lemma chat_catch_limiter:
  "apiRateLimiter (snd (chat_catch E e st)) = apiRateLimiter st"
  by (simp add: chat_catch_def pop_history_def Let_def)

lemma sendChatMessage_limiter:
  "apiRateLimiter (snd (sendChatMessage E fetch msg sink model st))
     = snd (checkRateLimit E (apiRateLimiter st))"
proof -
  obtain r rl where c: "checkRateLimit E (apiRateLimiter st) = (r, rl)"
    by (cases "checkRateLimit E (apiRateLimiter st)")
  show ?thesis
  proof (cases r)
    case (Inl e)
    with c show ?thesis by (simp add: sendChatMessage_def)
  next
    case (Inr u)
    show ?thesis
    proof (cases "sanitizePrompt E msg = []")
      case True
      with c Inr show ?thesis by (simp add: sendChatMessage_def)
    next
      case False
      let ?st1 = "st\<lparr>apiRateLimiter := rl,
                     chatHistory := chatHistory st
                       @ [\<lparr>role = user, content = sanitizePrompt E msg\<rparr>]\<rparr>"
      let ?req = "\<lparr>url = ''/api/chat'',
                   body = ChatBody (chatHistory ?st1) (or_current model (currentChatModel st))
                            True (webSearchEnabled st)\<rparr>"
      obtain calls res st2 where x: "chat_exchange E fetch sink ?req ?st1 = (calls, res, st2)"
        by (cases "chat_exchange E fetch sink ?req ?st1")
      have l2: "apiRateLimiter st2 = rl"
        using chat_exchange_limiter[of E fetch sink ?req ?st1] x by simp
      show ?thesis
      proof (cases res)
        case (Inl error)
        obtain thrown st3 where cc: "chat_catch E error st2 = (thrown, st3)"
          by (cases "chat_catch E error st2")
        have "apiRateLimiter st3 = rl"
          using chat_catch_limiter[of E error st2] cc l2 by simp
        with c Inr False x Inl cc show ?thesis
          by (simp add: sendChatMessage_def Let_def)
      next
        case (Inr result)
        with c \<open>r = Inr u\<close> False x l2 show ?thesis
          by (simp add: sendChatMessage_def Let_def)
      qed
    qed
  qed
qed








section \<open>Image preparation of the spec\<close>

lemma reencode_fits:
  "reencode C bitmap maxBytes steps = Inr out \<Longrightarrow> encodedSize out \<le> maxBytes"
  by (induction steps) (auto simp: Let_def split: if_splits)

text \<open>
  Claim C8. An image whose encoded size is within \<^verbatim>\<open>maxBytes\<close> is returned as it is;
  whatever \<^verbatim>\<open>prepare\<close> returns fits the budget and is returned unchanged when prepared
  again; and a result that differs from the input means the input exceeded the budget.
\<close>

theorem prepare_within_budget_unchanged:
  "(encodedSize img \<le> maxBytes \<longrightarrow> prepare C schedule img maxBytes = Inr img)
   \<and> (prepare C schedule img maxBytes = Inr out \<longrightarrow>
        encodedSize out \<le> maxBytes \<and> prepare C schedule out maxBytes = Inr out)
   \<and> (prepare C schedule img maxBytes = Inr out \<and> out \<noteq> img \<longrightarrow>
        maxBytes < encodedSize img)"
proof (intro conjI impI)
  assume "encodedSize img \<le> maxBytes"
  then show "prepare C schedule img maxBytes = Inr img" by (simp add: prepare_def)
next
  assume p: "prepare C schedule img maxBytes = Inr out"
  then show fits: "encodedSize out \<le> maxBytes"
    by (auto simp: prepare_def Let_def split: if_splits dest: reencode_fits)
  then show "prepare C schedule out maxBytes = Inr out" by (simp add: prepare_def)
next
  assume "prepare C schedule img maxBytes = Inr out \<and> out \<noteq> img"
  then show "maxBytes < encodedSize img"
    by (auto simp: prepare_def Let_def split: if_splits)
qed

text \<open>A codec that truncates to the quality given: a 26-byte image passes a budget of
  30 unchanged and is cut to 10 bytes under a budget of 15.\<close>

theorem prepare_within_budget_unchanged_witness:
  "encodedSize ''data:image/png;base64,AAAA'' \<le> 30
   \<and> prepare \<lparr>decode_bitmap = (\<lambda>i. i), encode_at = (\<lambda>b (q, k). take q b)\<rparr>
        [(20, 1), (10, 1)] ''data:image/png;base64,AAAA'' 30
       = Inr ''data:image/png;base64,AAAA''
   \<and> prepare \<lparr>decode_bitmap = (\<lambda>i. i), encode_at = (\<lambda>b (q, k). take q b)\<rparr>
        [(20, 1), (10, 1)] ''data:image/png;base64,AAAA'' 15
       = Inr ''data:image''
   \<and> prepare \<lparr>decode_bitmap = (\<lambda>i. i), encode_at = (\<lambda>b (q, k). take q b)\<rparr>
        [(20, 1), (10, 1)] ''data:image'' 15
       = Inr ''data:image''
   \<and> 15 < encodedSize ''data:image/png;base64,AAAA''"
proof -
  let ?C = "\<lparr>decode_bitmap = (\<lambda>i::string. i), encode_at = (\<lambda>b (q, k). take q b)\<rparr>"
  let ?img = "''data:image/png;base64,AAAA''"
  have h1: "encodedSize ?img \<le> 30" by (simp add: encodedSize_def)
  have h2: "prepare ?C [(20, 1), (10, 1)] ?img 15 = Inr ''data:image''"
    by (simp add: prepare_def encodedSize_def)
  have h3: "''data:image'' \<noteq> ?img" by simp
  from prepare_within_budget_unchanged[of ?img 30 ?C "[(20, 1), (10, 1)]"] h1
  have a: "prepare ?C [(20, 1), (10, 1)] ?img 30 = Inr ?img" by blast
  from prepare_within_budget_unchanged[of ?img 15 ?C "[(20, 1), (10, 1)]" "''data:image''"] h2 h3
  have b: "prepare ?C [(20, 1), (10, 1)] ''data:image'' 15 = Inr ''data:image''
      \<and> 15 < encodedSize ?img" by blast
  from h1 a h2 b show ?thesis by blast
qed

end
